theory Spec2Isabelle
  imports Complex_Main
begin

section \<open>Data model\<close>

text \<open>
  The two programs (the campaign engine \<^verbatim>\<open>Scheduler.py\<close> and the response endpoint
  \<^verbatim>\<open>app.py\<close>) share two JSON files. A contact and a tracking event are Python dicts
  with string keys; the values that occur are integers, strings, timestamps and
  \<^verbatim>\<open>None\<close>. A dict is kept as an association list in insertion order, which is
  the order \<^verbatim>\<open>json.dump\<close> writes.

  A timestamp is the string \<^verbatim>\<open>datetime.now().isoformat()\<close>; it is kept as the
  instant it denotes (\<open>VTime\<close>), in minutes.
\<close>

datatype val = VNone | VInt int | VStr string | VTime int

type_synonym dict = "(string \<times> val) list"

datatype error =
    KeyError string
  | TypeError
  | JSONDecodeError
  | ZeroDivisionError

text \<open>\<^verbatim>\<open>d[k]\<close>: raises \<^verbatim>\<open>KeyError\<close> on a missing key.\<close>

definition getitem :: "dict \<Rightarrow> string \<Rightarrow> error + val" where
  "getitem d k = (case map_of d k of None \<Rightarrow> Inl (KeyError k) | Some v \<Rightarrow> Inr v)"

text \<open>\<^verbatim>\<open>d.get(k, dflt)\<close>; \<^verbatim>\<open>d.get(k)\<close> is \<open>get_or d k VNone\<close>.\<close>

definition get_or :: "dict \<Rightarrow> string \<Rightarrow> val \<Rightarrow> val" where
  "get_or d k dflt = (case map_of d k of None \<Rightarrow> dflt | Some v \<Rightarrow> v)"

text \<open>\<^verbatim>\<open>k in d\<close>.\<close>

definition has_key :: "dict \<Rightarrow> string \<Rightarrow> bool" where
  "has_key d k = (map_of d k \<noteq> None)"

text \<open>\<^verbatim>\<open>d[k] = v\<close>: an existing key keeps its place, a new key goes last.\<close>

fun setitem :: "dict \<Rightarrow> string \<Rightarrow> val \<Rightarrow> dict" where
  "setitem [] k v = [(k, v)]"
| "setitem ((k', v') # d) k v =
     (if k' = k then (k, v) # d else (k', v') # setitem d k v)"

text \<open>\<^verbatim>\<open>str(n)\<close> of an integer, as an f-string renders it: decimal digits.\<close>

function str_nat :: "nat \<Rightarrow> string" where
  "str_nat n =
     (if n < 10 then [''0123456789'' ! n]
      else str_nat (n div 10) @ [''0123456789'' ! (n mod 10)])"
  by pat_completeness auto
termination
  by (relation "measure id") auto

declare str_nat.simps [simp del]

definition str_int :: "int \<Rightarrow> string" where
  "str_int i = (if i < 0 then CHR ''-'' # str_nat (nat (- i)) else str_nat (nat i))"

section \<open>The persistence store\<close>

text \<open>
  The JSON library and the file system are external. The text of a file is represented
  by what \<^verbatim>\<open>json.load\<close> makes of it: \<open>Blank\<close> is a file that is empty or holds
  only whitespace, \<open>Garbage\<close> is any other text that is not valid JSON, and \<open>Json d\<close>
  is the text \<^verbatim>\<open>json.dump\<close> writes for the collection \<open>d\<close>, which \<^verbatim>\<open>json.load\<close>
  reads back as \<open>d\<close>. A file that does not exist is \<open>None\<close> in the file system.
\<close>

datatype content = Blank | Garbage | Json "dict list"

type_synonym fs = "string \<Rightarrow> content option"

text \<open>\<^verbatim>\<open>json.load(f)\<close> / \<^verbatim>\<open>json.loads(content)\<close>.\<close>

fun json_loads :: "content \<Rightarrow> error + dict list" where
  "json_loads Blank = Inl JSONDecodeError"
| "json_loads Garbage = Inl JSONDecodeError"
| "json_loads (Json d) = Inr d"

text \<open>\<^verbatim>\<open>f.read().strip()\<close> is the empty string.\<close>

fun strip_is_empty :: "content \<Rightarrow> bool" where
  "strip_is_empty Blank = True"
| "strip_is_empty Garbage = False"
| "strip_is_empty (Json d) = False"

definition CONTACTS_FILE :: string where
  "CONTACTS_FILE = ''contacts.json''"

definition TRACKING_FILE :: string where
  "TRACKING_FILE = ''email_tracking.json''"

text \<open>
  \<^verbatim>\<open>Scheduler.load_json\<close>: only \<^verbatim>\<open>FileNotFoundError\<close> is caught; an error of
  \<^verbatim>\<open>json.load\<close> reaches the caller.
\<close>

definition load_json :: "fs \<Rightarrow> string \<Rightarrow> error + dict list" where
  "load_json fsys filename =
     (case fsys filename of
        None \<Rightarrow> Inr []
      | Some txt \<Rightarrow> json_loads txt)"

text \<open>
  \<^verbatim>\<open>app.load_json\<close>: a blank file, a missing file and a \<^verbatim>\<open>JSONDecodeError\<close> all
  give the empty list.
\<close>

definition app_load_json :: "fs \<Rightarrow> string \<Rightarrow> error + dict list" where
  "app_load_json fsys filename =
     (case fsys filename of
        None \<Rightarrow> Inr []
      | Some txt \<Rightarrow>
          if strip_is_empty txt then Inr []
          else (case json_loads txt of
                  Inl JSONDecodeError \<Rightarrow> Inr []
                | Inl e \<Rightarrow> Inl e
                | Inr d \<Rightarrow> Inr d))"

text \<open>
  \<^verbatim>\<open>save_json\<close> (the same in both programs, up to the encoding of non-ASCII
  characters): the file is opened for writing, which replaces its content.
\<close>

definition save_json :: "fs \<Rightarrow> string \<Rightarrow> dict list \<Rightarrow> fs" where
  "save_json fsys filename data = fsys(filename \<mapsto> Json data)"

section \<open>The world of the campaign engine\<close>

text \<open>
  \<^verbatim>\<open>MAX_REMINDERS\<close> and \<^verbatim>\<open>DEFAULT_REMINDER_INTERVAL_MINUTES\<close> of \<^verbatim>\<open>Scheduler.py\<close>.
\<close>

definition MAX_REMINDERS :: int where
  "MAX_REMINDERS = 3"

definition DEFAULT_REMINDER_INTERVAL_MINUTES :: int where
  "DEFAULT_REMINDER_INTERVAL_MINUTES = 1"

text \<open>
  A job of the reminder timer, as \<^verbatim>\<open>reminder_scheduler.add_job\<close> registers it:
  its id is \<^verbatim>\<open>f"reminder_{contact['id']}_{ordinal}"\<close>, its arguments are the contact
  id and the interval, and it fires \<^verbatim>\<open>send_reminder_email\<close> at \<open>run_date\<close>.
  The timer keeps its jobs in the order they were added and does not reject an id it
  already holds.
\<close>

record job =
  job_contact :: val
  job_ordinal :: int
  run_date :: int
  job_interval :: int

text \<open>A message handed to the SMTP server, by its recipient.\<close>

datatype mail = InitialMail val | ReminderMail val int

text \<open>The lines the campaign engine prints.\<close>

datatype msg =
    SentOk
  | SendFailed
  | NotFoundOrNotPending val
  | MaxReached
  | ReminderSent int
  | NextReminderAt int
  | ReminderFailed
  | NoPending
  | CampaignStart nat int
  | FirstReminderAt int
  | Summary nat nat nat

text \<open>
  The state the programs act on: the files, the log of the files \<^verbatim>\<open>save_json\<close> has
  written (oldest first), the global \<^verbatim>\<open>reminder_scheduler\<close> (\<open>None\<close> while the
  global is not set, otherwise the jobs it holds), the messages the SMTP server has
  accepted, the printed lines, and the number of interactions with the outside (clock
  readings and send attempts) so far.
\<close>

record world =
  files :: fs
  writes :: "string list"
  scheduler :: "job list option"
  outbox :: "mail list"
  stdout :: "msg list"
  tick :: nat

text \<open>
  What the outside does at each interaction: whether reading and rendering the template
  succeeds, whether the SMTP session (connect, \<^verbatim>\<open>starttls\<close>, \<^verbatim>\<open>login\<close>,
  \<^verbatim>\<open>send_message\<close>) succeeds, and what the clock shows.
\<close>

record env =
  render_ok :: "nat \<Rightarrow> bool"
  smtp_ok :: "nat \<Rightarrow> bool"
  clock :: "nat \<Rightarrow> int"

text \<open>\<^verbatim>\<open>datetime.now()\<close>.\<close>

definition now :: "env \<Rightarrow> world \<Rightarrow> int \<times> world" where
  "now e w = (clock e (tick w), w\<lparr>tick := Suc (tick w)\<rparr>)"

text \<open>\<^verbatim>\<open>save_json(filename, data)\<close> on the world.\<close>

definition write_file :: "string \<Rightarrow> dict list \<Rightarrow> world \<Rightarrow> world" where
  "write_file filename data w =
     w\<lparr>files := save_json (files w) filename data, writes := writes w @ [filename]\<rparr>"

text \<open>\<^verbatim>\<open>print(...)\<close>.\<close>

definition print :: "msg \<Rightarrow> world \<Rightarrow> world" where
  "print m w = w\<lparr>stdout := stdout w @ [m]\<rparr>"

text \<open>
  The first contact whose \<^verbatim>\<open>c['id'] == contact_id\<close>, by its position:
  \<^verbatim>\<open>next((c for c in contacts if c['id'] == contact_id), None)\<close> in
  \<^verbatim>\<open>Scheduler.py\<close> and \<^verbatim>\<open>app.py\<close>, and the loop with \<^verbatim>\<open>break\<close> of
  \<^verbatim>\<open>update_contact_status\<close>. A contact without the key \<^verbatim>\<open>id\<close> that is reached
  before a match raises \<^verbatim>\<open>KeyError\<close>.
\<close>

fun find_contact :: "dict list \<Rightarrow> val \<Rightarrow> error + nat option" where
  "find_contact [] contact_id = Inr None"
| "find_contact (c # cs) contact_id =
     (case getitem c ''id'' of
        Inl e \<Rightarrow> Inl e
      | Inr v \<Rightarrow>
          if v = contact_id then Inr (Some 0)
          else (case find_contact cs contact_id of
                  Inl e \<Rightarrow> Inl e
                | Inr None \<Rightarrow> Inr None
                | Inr (Some i) \<Rightarrow> Inr (Some (Suc i))))"

text \<open>\<^verbatim>\<open>c.get('status') == 'pending'\<close>.\<close>

definition is_pending :: "dict \<Rightarrow> bool" where
  "is_pending c = (get_or c ''status'' VNone = VStr ''pending'')"

text \<open>The tracking event both programs append.\<close>

definition tracking_entry :: "val \<Rightarrow> val \<Rightarrow> val \<Rightarrow> string \<Rightarrow> int \<Rightarrow> dict" where
  "tracking_entry cid name email action t =
     [(''contact_id'', cid), (''contact_name'', name), (''contact_email'', email),
      (''action'', VStr action), (''timestamp'', VTime t)]"

section \<open>The notifier\<close>

text \<open>
  The handler \<^verbatim>\<open>except Exception as e\<close> of \<^verbatim>\<open>send_email\<close>: it prints a line that
  reads \<^verbatim>\<open>contact['name']\<close>, and returns \<^verbatim>\<open>False\<close>.
\<close>

definition send_email_failed :: "dict \<Rightarrow> world \<Rightarrow> (error + bool) \<times> world" where
  "send_email_failed contact w =
     (case getitem contact ''name'' of
        Inl e \<Rightarrow> (Inl e, w)
      | Inr _ \<Rightarrow> (Inr False, print SendFailed w))"

text \<open>
  \<^verbatim>\<open>send_email(contact)\<close>. Everything up to \<^verbatim>\<open>return True\<close> is inside the
  \<^verbatim>\<open>try\<close>: the template, the three keys of the contact, the SMTP session, and the
  update of the tracking file.
\<close>

definition send_email :: "env \<Rightarrow> dict \<Rightarrow> world \<Rightarrow> (error + bool) \<times> world" where
  "send_email e contact w =
     (let n = tick w; w1 = w\<lparr>tick := Suc n\<rparr> in
      if \<not> render_ok e n then send_email_failed contact w1
      else case getitem contact ''id'' of
        Inl _ \<Rightarrow> send_email_failed contact w1
      | Inr cid \<Rightarrow>
      (case getitem contact ''name'' of
        Inl _ \<Rightarrow> send_email_failed contact w1
      | Inr name \<Rightarrow>
      (case getitem contact ''email'' of
        Inl _ \<Rightarrow> send_email_failed contact w1
      | Inr email \<Rightarrow>
          if \<not> smtp_ok e n then send_email_failed contact w1
          else
            let w2 = w1\<lparr>outbox := outbox w1 @ [InitialMail email]\<rparr> in
            (case load_json (files w2) TRACKING_FILE of
               Inl _ \<Rightarrow> send_email_failed contact w2
             | Inr tracking \<Rightarrow>
                 let (t, w3) = now e w2;
                     w4 = write_file TRACKING_FILE
                            (tracking @ [tracking_entry cid name email ''email_sent'' t]) w3
                 in (Inr True, print SentOk w4)))))"

section \<open>The reminder routine\<close>

text \<open>
  The handler \<^verbatim>\<open>except Exception as e\<close> of \<^verbatim>\<open>send_reminder_email\<close>: it prints a
  line that reads \<^verbatim>\<open>contact['name']\<close>; the function then returns \<^verbatim>\<open>None\<close>.
\<close>

definition reminder_failed :: "dict \<Rightarrow> world \<Rightarrow> (error + unit) \<times> world" where
  "reminder_failed contact w =
     (case getitem contact ''name'' of
        Inl e \<Rightarrow> (Inl e, w)
      | Inr _ \<Rightarrow> (Inr (), print ReminderFailed w))"

text \<open>
  The \<^verbatim>\<open>try\<close> block of \<^verbatim>\<open>send_reminder_email\<close>, for the contact at position \<open>i\<close>
  of the loaded collection, with the reminder count read from it.
\<close>

definition reminder_try ::
  "env \<Rightarrow> dict list \<Rightarrow> nat \<Rightarrow> int \<Rightarrow> int \<Rightarrow> world \<Rightarrow> (error + unit) \<times> world" where
  "reminder_try e contacts i reminder_count reminder_interval_minutes w =
     (let contact = contacts ! i; n = tick w; w1 = w\<lparr>tick := Suc n\<rparr> in
      if \<not> render_ok e n then reminder_failed contact w1
      else case getitem contact ''id'' of
        Inl _ \<Rightarrow> reminder_failed contact w1
      | Inr cid \<Rightarrow>
      (case getitem contact ''name'' of
        Inl _ \<Rightarrow> reminder_failed contact w1
      | Inr name \<Rightarrow>
      (case getitem contact ''email'' of
        Inl _ \<Rightarrow> reminder_failed contact w1
      | Inr email \<Rightarrow>
          if \<not> smtp_ok e n then reminder_failed contact w1
          else
            let w2 = w1\<lparr>outbox := outbox w1 @ [ReminderMail email (reminder_count + 1)]\<rparr>;
                new_reminder_count = reminder_count + 1;
                (current_time, w3) = now e w2;
                contact1 = setitem contact ''reminder_count'' (VInt new_reminder_count);
                contact2 = setitem contact1 ''last_reminder_sent'' (VTime current_time);
                contact3 = setitem contact2 ''updated_at'' (VTime current_time)
            in
            (case load_json (files w3) TRACKING_FILE of
               Inl _ \<Rightarrow> reminder_failed contact3 w3
             | Inr tracking \<Rightarrow>
                 let action = ''reminder_'' @ str_int new_reminder_count @ ''_sent'';
                     w4 = write_file TRACKING_FILE
                            (tracking @ [tracking_entry cid name email action current_time]) w3;
                     w5 = write_file CONTACTS_FILE (contacts[i := contact3]) w4;
                     w6 = print (ReminderSent new_reminder_count) w5
                 in
                 if new_reminder_count < MAX_REMINDERS then
                   (case scheduler w6 of
                      None \<Rightarrow> (Inr (), w6)
                    | Some js \<Rightarrow>
                        let next_reminder_time = current_time + reminder_interval_minutes;
                            j = \<lparr>job_contact = cid, job_ordinal = new_reminder_count + 1,
                                 run_date = next_reminder_time,
                                 job_interval = reminder_interval_minutes\<rparr>
                        in (Inr (), print (NextReminderAt next_reminder_time)
                                      (w6\<lparr>scheduler := Some (js @ [j])\<rparr>)))
                 else (Inr (), w6)))))"

text \<open>
  \<^verbatim>\<open>send_reminder_email(contact_id, reminder_interval_minutes)\<close>, the callback of a
  reminder job. The comparison \<^verbatim>\<open>reminder_count >= MAX_REMINDERS\<close> raises
  \<^verbatim>\<open>TypeError\<close> when the stored count is not a number.
\<close>

definition send_reminder_email ::
  "env \<Rightarrow> val \<Rightarrow> int option \<Rightarrow> world \<Rightarrow> (error + unit) \<times> world" where
  "send_reminder_email e contact_id reminder_interval_minutes w =
     (let interval = (case reminder_interval_minutes of
                        None \<Rightarrow> DEFAULT_REMINDER_INTERVAL_MINUTES
                      | Some m \<Rightarrow> m)
      in
      case load_json (files w) CONTACTS_FILE of
        Inl err \<Rightarrow> (Inl err, w)
      | Inr contacts \<Rightarrow>
      (case find_contact contacts contact_id of
        Inl err \<Rightarrow> (Inl err, w)
      | Inr None \<Rightarrow> (Inr (), print (NotFoundOrNotPending contact_id) w)
      | Inr (Some i) \<Rightarrow>
          let contact = contacts ! i in
          if contact = [] \<or> \<not> is_pending contact
          then (Inr (), print (NotFoundOrNotPending contact_id) w)
          else
            (case get_or contact ''reminder_count'' (VInt 0) of
               VInt reminder_count \<Rightarrow>
                 if reminder_count \<ge> MAX_REMINDERS then
                   let (t, w1) = now e w;
                       contact1 = setitem contact ''status'' (VStr ''not_interested'');
                       contact2 = setitem contact1 ''updated_at'' (VTime t);
                       w2 = write_file CONTACTS_FILE (contacts[i := contact2]) w1
                   in (case getitem contact2 ''name'' of
                         Inl err \<Rightarrow> (Inl err, w2)
                       | Inr _ \<Rightarrow> (Inr (), print MaxReached w2))
                 else reminder_try e contacts i reminder_count interval w
             | _ \<Rightarrow> (Inl TypeError, w))))"

section \<open>The campaign run\<close>





section \<open>The response endpoint\<close>

text \<open>\<^verbatim>\<open>update_contact_status(contact_id, status)\<close> of \<^verbatim>\<open>app.py\<close>.\<close>

definition update_contact_status ::
  "env \<Rightarrow> int \<Rightarrow> string \<Rightarrow> world \<Rightarrow> (error + unit) \<times> world" where
  "update_contact_status e contact_id status w =
     (case app_load_json (files w) CONTACTS_FILE of
        Inl err \<Rightarrow> (Inl err, w)
      | Inr contacts \<Rightarrow>
      (case find_contact contacts (VInt contact_id) of
        Inl err \<Rightarrow> (Inl err, w)
      | Inr None \<Rightarrow> (Inr (), write_file CONTACTS_FILE contacts w)
      | Inr (Some i) \<Rightarrow>
          let c1 = setitem (contacts ! i) ''status'' (VStr status);
              (t, w1) = now e w;
              c2 = setitem c1 ''updated_at'' (VTime t)
          in (Inr (), write_file CONTACTS_FILE (contacts[i := c2]) w1)))"

text \<open>\<^verbatim>\<open>track_response(contact_id, action)\<close> of \<^verbatim>\<open>app.py\<close>.\<close>

definition track_response ::
  "env \<Rightarrow> int \<Rightarrow> string \<Rightarrow> world \<Rightarrow> (error + unit) \<times> world" where
  "track_response e contact_id action w =
     (case app_load_json (files w) TRACKING_FILE of
        Inl err \<Rightarrow> (Inl err, w)
      | Inr tracking \<Rightarrow>
      (case app_load_json (files w) CONTACTS_FILE of
        Inl err \<Rightarrow> (Inl err, w)
      | Inr contacts \<Rightarrow>
      (case find_contact contacts (VInt contact_id) of
        Inl err \<Rightarrow> (Inl err, w)
      | Inr None \<Rightarrow> (Inr (), w)
      | Inr (Some i) \<Rightarrow>
          let contact = contacts ! i in
          if contact = [] then (Inr (), w)
          else
            (case getitem contact ''name'' of
               Inl err \<Rightarrow> (Inl err, w)
             | Inr name \<Rightarrow>
            (case getitem contact ''email'' of
               Inl err \<Rightarrow> (Inl err, w)
             | Inr email \<Rightarrow>
                 let (t, w1) = now e w;
                     entry = tracking_entry (VInt contact_id) name email action t
                 in (Inr (), write_file TRACKING_FILE (tracking @ [entry]) w1))))))"

text \<open>
  The responses of the routes. An exception that leaves a route is an error value
  (the framework answers it with status 500).
\<close>

datatype response = RedirectResponse string | HTMLResponse string

text \<open>
  \<^verbatim>\<open>GET /interested/{contact_id}\<close>; \<open>CALENDLY_LINK\<close> is the configured external
  scheduling link.
\<close>

definition interested ::
  "env \<Rightarrow> string \<Rightarrow> int \<Rightarrow> world \<Rightarrow> (error + response) \<times> world" where
  "interested e CALENDLY_LINK contact_id w =
     (case update_contact_status e contact_id ''interested'' w of
        (Inl err, w1) \<Rightarrow> (Inl err, w1)
      | (Inr _, w1) \<Rightarrow>
      (case track_response e contact_id ''interested'' w1 of
        (Inl err, w2) \<Rightarrow> (Inl err, w2)
      | (Inr _, w2) \<Rightarrow> (Inr (RedirectResponse CALENDLY_LINK), w2)))"

text \<open>
  \<^verbatim>\<open>GET /not-interested/{contact_id}\<close>; the page is the literal of the source, here by
  its heading.
\<close>

definition html_content :: string where
  "html_content = ''<h1>Thank You for Your Response</h1>''"

definition not_interested ::
  "env \<Rightarrow> int \<Rightarrow> world \<Rightarrow> (error + response) \<times> world" where
  "not_interested e contact_id w =
     (case update_contact_status e contact_id ''not_interested'' w of
        (Inl err, w1) \<Rightarrow> (Inl err, w1)
      | (Inr _, w1) \<Rightarrow>
      (case track_response e contact_id ''not_interested'' w1 of
        (Inl err, w2) \<Rightarrow> (Inl err, w2)
      | (Inr _, w2) \<Rightarrow> (Inr (HTMLResponse html_content), w2)))"







section \<open>Observing the campaign loop\<close>


text \<open>
  A contact is within the cap when its stored reminder count, read as the reminder
  routine reads it, does not exceed \<^verbatim>\<open>MAX_REMINDERS\<close>.
\<close>

definition within_cap :: "dict \<Rightarrow> bool" where
  "within_cap c =
     (case get_or c ''reminder_count'' (VInt 0) of VInt n \<Rightarrow> n \<le> MAX_REMINDERS | _ \<Rightarrow> True)"

section \<open>Scenarios\<close>

text \<open>
  Concrete inputs on which the theorems below are exercised: an outside where every
  template rendering and SMTP session succeeds and the clock shows the number of the
  interaction, one where the SMTP session fails at interaction 1 only (the first send of a campaign run), and one where it
  always fails; three contacts; and the world of a freshly started campaign engine
  (scheduler set, no job yet) over a given contact file.
\<close>

definition all_ok :: env where
  "all_ok = \<lparr>render_ok = (\<lambda>n. True), smtp_ok = (\<lambda>n. True), clock = (\<lambda>n. int n)\<rparr>"


definition smtp_down :: env where
  "smtp_down = \<lparr>render_ok = (\<lambda>n. True), smtp_ok = (\<lambda>n. False), clock = (\<lambda>n. int n)\<rparr>"

definition ann :: dict where
  "ann = [(''id'', VInt 1), (''name'', VStr ''Ann''), (''email'', VStr ''ann@example.com''),
          (''status'', VStr ''pending'')]"

definition bob :: dict where
  "bob = [(''id'', VInt 2), (''name'', VStr ''Bob''), (''email'', VStr ''bob@example.com''),
          (''status'', VStr ''interested'')]"

definition cat :: dict where
  "cat = [(''id'', VInt 3), (''name'', VStr ''Cat''), (''email'', VStr ''cat@example.com''),
          (''status'', VStr ''pending''), (''reminder_count'', VInt 2)]"

definition started :: "content option \<Rightarrow> world" where
  "started contacts_file =
     \<lparr>files = (\<lambda>name. if name = CONTACTS_FILE then contacts_file else None),
      writes = [], scheduler = Some [], outbox = [], stdout = [], tick = 0\<rparr>"

section \<open>Loading and saving\<close>

text \<open>
  C2. Loading a store file that is missing, empty, or malformed returns an empty
  collection without raising, for both programs' load operations. The response
  endpoint's loader does so; the campaign engine's loader does so only for a missing
  file: on an empty file it raises \<^verbatim>\<open>JSONDecodeError\<close>.
\<close>

theorem load_json_empty_file_raises:
  "load_json (Map.empty(CONTACTS_FILE \<mapsto> Blank)) CONTACTS_FILE = Inl JSONDecodeError
   \<and> load_json (Map.empty(CONTACTS_FILE \<mapsto> Garbage)) CONTACTS_FILE = Inl JSONDecodeError
   \<and> load_json Map.empty CONTACTS_FILE = Inr []
   \<and> app_load_json (Map.empty(CONTACTS_FILE \<mapsto> Blank)) CONTACTS_FILE = Inr []
   \<and> app_load_json (Map.empty(CONTACTS_FILE \<mapsto> Garbage)) CONTACTS_FILE = Inr []
   \<and> app_load_json Map.empty CONTACTS_FILE = Inr []"
  by (simp add: load_json_def app_load_json_def)

text \<open>
  C7. Saving a contact collection and then loading the same file yields the collection
  that was saved, in the same order, whichever of the two programs loads it.
\<close>

theorem save_then_load:
  "load_json (save_json fsys filename data) filename = Inr data
   \<and> app_load_json (save_json fsys filename data) filename = Inr data"
  by (simp add: load_json_def app_load_json_def save_json_def)

section \<open>Dictionaries and the contact search\<close>

lemma map_of_setitem:
  "map_of (setitem d k v) k' = (if k' = k then Some v else map_of d k')"
  by (induction d) auto


lemma get_or_setitem:
  "get_or (setitem d k v) k' dflt = (if k' = k then v else get_or d k' dflt)"
  by (simp add: get_or_def map_of_setitem)

lemma has_key_setitem: "has_key (setitem d k v) k' = (k' = k \<or> has_key d k')"
  by (simp add: has_key_def map_of_setitem)



lemma find_contact_Some:
  "find_contact cs cid = Inr (Some i) \<Longrightarrow> i < length cs \<and> getitem (cs ! i) ''id'' = Inr cid"
proof (induction cs arbitrary: i)
  case Nil
  then show ?case by simp
next
  case (Cons c cs)
  then show ?case
    by (auto split: sum.splits if_splits option.splits simp: nth_Cons')
qed


lemma app_load_json_total: "\<exists>d. app_load_json fsys filename = Inr d"
proof (cases "fsys filename")
  case None
  then show ?thesis by (simp add: app_load_json_def)
next
  case (Some body)
  then show ?thesis by (cases body) (simp_all add: app_load_json_def)
qed

lemma app_load_json_saved:
  "app_load_json (save_json fsys filename d) filename = Inr d"
  by (simp add: app_load_json_def save_json_def)


lemma files_differ: "TRACKING_FILE \<noteq> CONTACTS_FILE"
  by (simp add: TRACKING_FILE_def CONTACTS_FILE_def)

lemma send_email_failed_named:
  "has_key c ''name'' \<Longrightarrow> send_email_failed c w = (Inr False, print SendFailed w)"
  by (auto simp: send_email_failed_def has_key_def getitem_def)

section \<open>The notifier never raises\<close>

text \<open>
  C8. The initial send never raises to its caller: for every contact (a dict with a
  \<^verbatim>\<open>name\<close>, as every contact record has) the call returns a boolean; whenever the
  template or the SMTP session fails, the error is caught, the result is \<^verbatim>\<open>False\<close>
  and nothing was submitted; and the result is \<^verbatim>\<open>True\<close> only if the message was
  submitted to the SMTP server.
\<close>

theorem send_email_catches:
  assumes "has_key contact ''name''"
  shows "(\<exists>b w'. send_email e contact w = (Inr b, w'))
       \<and> (\<not> (render_ok e (tick w) \<and> smtp_ok e (tick w)) \<longrightarrow>
            fst (send_email e contact w) = Inr False
            \<and> outbox (snd (send_email e contact w)) = outbox w)
       \<and> (fst (send_email e contact w) = Inr True \<longrightarrow>
            render_ok e (tick w) \<and> smtp_ok e (tick w)
            \<and> (\<exists>email. getitem contact ''email'' = Inr email
                 \<and> outbox (snd (send_email e contact w)) = outbox w @ [InitialMail email]))"
  using assms
  by (auto simp: send_email_def send_email_failed_named Let_def now_def print_def write_file_def
           split: sum.splits)

theorem send_email_catches_witness:
  "has_key ann ''name''
   \<and> fst (send_email smtp_down ann (started None)) = Inr False
   \<and> outbox (snd (send_email smtp_down ann (started None))) = []
   \<and> fst (send_email all_ok ann (started None)) = Inr True"
proof -
  have h: "has_key ann ''name''" by (simp add: has_key_def ann_def)
  have down: "\<not> (render_ok smtp_down (tick (started None))
                 \<and> smtp_ok smtp_down (tick (started None)))"
    by (simp add: smtp_down_def)
  have "fst (send_email smtp_down ann (started None)) = Inr False
        \<and> outbox (snd (send_email smtp_down ann (started None))) = outbox (started None)"
    using send_email_catches [OF h, of smtp_down "started None"] down by blast
  moreover have "outbox (started None) = []" by (simp add: started_def)
  moreover have "fst (send_email all_ok ann (started None)) = Inr True"
    by (simp add: send_email_def all_ok_def ann_def started_def getitem_def load_json_def
          TRACKING_FILE_def CONTACTS_FILE_def now_def write_file_def print_def Let_def)
  ultimately show ?thesis using h by simp
qed

section \<open>The reminder routine on a resolved contact\<close>

text \<open>
  C5. Firing the reminder callback for an id that matches no contact, or for a contact
  that is not pending (so in particular one that is interested or not_interested), is a
  no-op: it returns normally and changes neither the files (the contact collection and
  the tracking log), nor the scheduled jobs, nor the outbox; it only prints a line.
\<close>

theorem resolved_contact_noop:
  assumes "load_json (files w) CONTACTS_FILE = Inr contacts"
    and "find_contact contacts contact_id = Inr None
         \<or> (\<exists>i. find_contact contacts contact_id = Inr (Some i) \<and> \<not> is_pending (contacts ! i))"
  shows "send_reminder_email e contact_id interval w
           = (Inr (), print (NotFoundOrNotPending contact_id) w)
       \<and> files (snd (send_reminder_email e contact_id interval w)) = files w
       \<and> scheduler (snd (send_reminder_email e contact_id interval w)) = scheduler w
       \<and> writes (snd (send_reminder_email e contact_id interval w)) = writes w
       \<and> outbox (snd (send_reminder_email e contact_id interval w)) = outbox w"
proof -
  have "send_reminder_email e contact_id interval w
           = (Inr (), print (NotFoundOrNotPending contact_id) w)"
    using assms by (auto simp: send_reminder_email_def Let_def)
  then show ?thesis by (simp add: print_def)
qed

theorem resolved_contact_noop_witness:
  "load_json (files (started (Some (Json [ann, bob])))) CONTACTS_FILE = Inr [ann, bob]
   \<and> find_contact [ann, bob] (VInt 2) = Inr (Some 1)
   \<and> \<not> is_pending ([ann, bob] ! 1)
   \<and> send_reminder_email all_ok (VInt 2) None (started (Some (Json [ann, bob])))
       = (Inr (), print (NotFoundOrNotPending (VInt 2)) (started (Some (Json [ann, bob]))))
   \<and> files (snd (send_reminder_email all_ok (VInt 2) None (started (Some (Json [ann, bob])))))
       = files (started (Some (Json [ann, bob])))
   \<and> scheduler (snd (send_reminder_email all_ok (VInt 2) None
                         (started (Some (Json [ann, bob])))))
       = scheduler (started (Some (Json [ann, bob])))"
proof -
  have h1: "load_json (files (started (Some (Json [ann, bob])))) CONTACTS_FILE = Inr [ann, bob]"
    by (simp add: started_def load_json_def)
  have h2: "find_contact [ann, bob] (VInt 2) = Inr (Some 1)"
    by (simp add: ann_def bob_def getitem_def)
  have h3: "\<not> is_pending ([ann, bob] ! 1)"
    by (simp add: bob_def is_pending_def get_or_def)
  have h4: "find_contact [ann, bob] (VInt 2) = Inr None
         \<or> (\<exists>i. find_contact [ann, bob] (VInt 2) = Inr (Some i) \<and> \<not> is_pending ([ann, bob] ! i))"
    using h2 h3 by blast
  show ?thesis
    using h1 h2 h3 resolved_contact_noop [OF h1 h4, of all_ok None] by blast
qed

section \<open>Responses to a click\<close>



text \<open>
  C10. \<^verbatim>\<open>GET /interested/{id}\<close> and \<^verbatim>\<open>GET /not-interested/{id}\<close> for an id that
  matches no contact still give their success response (the redirect, the page); the
  only effect is that the contact file is written again with the collection that was
  loaded, so no tracking event is appended.
\<close>

theorem unknown_id_still_succeeds:
  assumes "app_load_json (files w) CONTACTS_FILE = Inr contacts"
    and "find_contact contacts (VInt contact_id) = Inr None"
  shows "interested e link contact_id w
           = (Inr (RedirectResponse link), write_file CONTACTS_FILE contacts w)
       \<and> not_interested e contact_id w
           = (Inr (HTMLResponse html_content), write_file CONTACTS_FILE contacts w)
       \<and> files (write_file CONTACTS_FILE contacts w) TRACKING_FILE = files w TRACKING_FILE
       \<and> files (write_file CONTACTS_FILE contacts w) CONTACTS_FILE = Some (Json contacts)"
proof -
  let ?w1 = "write_file CONTACTS_FILE contacts w"
  have upd: "update_contact_status e contact_id status w = (Inr (), ?w1)" for status
    using assms by (simp add: update_contact_status_def)
  obtain tracking where tr: "app_load_json (files ?w1) TRACKING_FILE = Inr tracking"
    using app_load_json_total by blast
  have cs: "app_load_json (files ?w1) CONTACTS_FILE = Inr contacts"
    by (simp add: write_file_def app_load_json_saved)
  have trk: "track_response e contact_id action ?w1 = (Inr (), ?w1)" for action
    using assms(2) tr cs by (simp add: track_response_def)
  show ?thesis
    using upd trk files_differ
    by (simp add: interested_def not_interested_def write_file_def save_json_def)
qed

theorem unknown_id_still_succeeds_witness:
  "app_load_json (files (started (Some (Json [ann, bob])))) CONTACTS_FILE = Inr [ann, bob]
   \<and> find_contact [ann, bob] (VInt 42) = Inr None
   \<and> interested all_ok ''https://calendly.example/demo'' 42 (started (Some (Json [ann, bob])))
       = (Inr (RedirectResponse ''https://calendly.example/demo''),
          write_file CONTACTS_FILE [ann, bob] (started (Some (Json [ann, bob]))))
   \<and> not_interested all_ok 42 (started (Some (Json [ann, bob])))
       = (Inr (HTMLResponse html_content),
          write_file CONTACTS_FILE [ann, bob] (started (Some (Json [ann, bob]))))"
proof -
  let ?w = "started (Some (Json [ann, bob]))"
  have h1: "app_load_json (files ?w) CONTACTS_FILE = Inr [ann, bob]"
    by (simp add: started_def app_load_json_def)
  have h2: "find_contact [ann, bob] (VInt 42) = Inr None"
    by (simp add: ann_def bob_def getitem_def)
  show ?thesis
    using h1 h2
      unknown_id_still_succeeds [OF h1 h2, where e = all_ok
        and link = "''https://calendly.example/demo''"]
    by blast
qed

section \<open>Statistics\<close>







section \<open>Properties of the campaign loop\<close>











section \<open>Counts and persistence of a campaign run\<close>







section \<open>The reminder chain at the cap\<close>

text \<open>
  The reminder routine never takes a stored count beyond the cap: if every contact of the
  store is within the cap before the callback fires, so is every contact afterwards.
\<close>

lemma within_cap_update:
  assumes "\<forall>c \<in> set cs. within_cap c" and "within_cap c'"
  shows "\<forall>c \<in> set (cs[i := c']). within_cap c"
  using assms set_update_subset_insert [of cs i c'] by blast

lemma load_json_written:
  "load_json (files (write_file name d w)) name = Inr d"
  by (simp add: write_file_def save_json_def load_json_def)

lemma load_json_written_other:
  "other \<noteq> name \<Longrightarrow> load_json (files (write_file name d w)) other = load_json (files w) other"
  by (simp add: write_file_def save_json_def load_json_def)

lemma reminder_failed_files: "files (snd (reminder_failed c w)) = files w"
  by (simp add: reminder_failed_def print_def split: sum.splits)

lemma reminder_try_contacts:
  assumes cs: "load_json (files w) CONTACTS_FILE = Inr cs"
  shows "load_json (files (snd (reminder_try e cs i n iv w))) CONTACTS_FILE = Inr cs
       \<or> load_json (files (snd (reminder_try e cs i n iv w))) CONTACTS_FILE
            = Inr (cs[i := setitem (setitem (setitem (cs ! i) ''reminder_count'' (VInt (n + 1)))
                                      ''last_reminder_sent'' (VTime (clock e (Suc (tick w)))))
                               ''updated_at'' (VTime (clock e (Suc (tick w))))])"
  using cs files_differ
  by (auto simp: reminder_try_def Let_def now_def reminder_failed_files print_def
        load_json_written load_json_written_other write_file_def save_json_def load_json_def
        split: sum.splits option.splits)

lemma setitem_within_cap:
  "within_cap (setitem (setitem (setitem c ''reminder_count'' (VInt m)) k1 v1) k2 v2)
     = (m \<le> MAX_REMINDERS)"
  if "k1 \<noteq> ''reminder_count''" "k2 \<noteq> ''reminder_count''"
  using that by (simp add: within_cap_def get_or_setitem)

lemma status_within_cap:
  "within_cap (setitem (setitem c ''status'' v1) ''updated_at'' v2) = within_cap c"
  by (simp add: within_cap_def get_or_setitem)

lemma reminder_keeps_cap:
  assumes cs: "load_json (files w) CONTACTS_FILE = Inr cs"
    and cap: "\<forall>c \<in> set cs. within_cap c"
    and cs': "load_json (files (snd (send_reminder_email e cid iv w))) CONTACTS_FILE = Inr cs'"
  shows "\<forall>c \<in> set cs'. within_cap c"
proof -
  define interval where
    "interval = (case iv of None \<Rightarrow> DEFAULT_REMINDER_INTERVAL_MINUTES | Some m \<Rightarrow> m)"
  let ?r = "send_reminder_email e cid iv w"
  have same: "files (snd ?r) = files w \<Longrightarrow> ?thesis"
    using cs cs' cap by simp
  show ?thesis
  proof (cases "find_contact cs cid")
    case (Inl err)
    then show ?thesis using cs by (intro same) (simp add: send_reminder_email_def)
  next
    case (Inr found)
    show ?thesis
    proof (cases found)
      case None
      then show ?thesis using cs Inr
        by (intro same) (simp add: send_reminder_email_def print_def)
    next
      case (Some i)
      then have i: "i < length cs" using Inr find_contact_Some by blast
      show ?thesis
      proof (cases "cs ! i = [] \<or> \<not> is_pending (cs ! i)")
        case True
        then show ?thesis using cs Inr Some
          by (intro same) (auto simp: send_reminder_email_def print_def)
      next
        case False
        show ?thesis
        proof (cases "get_or (cs ! i) ''reminder_count'' (VInt 0)")
          case (VInt n)
          show ?thesis
          proof (cases "n \<ge> MAX_REMINDERS")
            case True
            have "load_json (files (snd ?r)) CONTACTS_FILE
                    = Inr (cs[i := setitem (setitem (cs ! i) ''status'' (VStr ''not_interested''))
                                     ''updated_at'' (VTime (clock e (tick w)))])"
              using cs Inr Some False VInt True
              by (simp add: send_reminder_email_def Let_def now_def print_def
                    load_json_written split: sum.splits)
            then have "cs' = cs[i := setitem (setitem (cs ! i) ''status'' (VStr ''not_interested''))
                                     ''updated_at'' (VTime (clock e (tick w)))]"
              using cs' by simp
            moreover have "within_cap (setitem (setitem (cs ! i) ''status'' (VStr ''not_interested''))
                                     ''updated_at'' (VTime (clock e (tick w))))"
              using cap i by (simp add: status_within_cap)
            ultimately show ?thesis
              using within_cap_update [OF cap] by blast
          next
            case below: False
            have r: "?r = reminder_try e cs i n interval w"
              using cs Inr Some False VInt below
              by (simp add: send_reminder_email_def interval_def)
            from reminder_try_contacts [OF cs, of e i n interval] cs'
            have "cs' = cs
                \<or> cs' = cs[i := setitem (setitem (setitem (cs ! i) ''reminder_count'' (VInt (n + 1)))
                                      ''last_reminder_sent'' (VTime (clock e (Suc (tick w)))))
                               ''updated_at'' (VTime (clock e (Suc (tick w))))]"
              unfolding r by auto
            moreover have "within_cap
                 (setitem (setitem (setitem (cs ! i) ''reminder_count'' (VInt (n + 1)))
                                      ''last_reminder_sent'' (VTime (clock e (Suc (tick w)))))
                               ''updated_at'' (VTime (clock e (Suc (tick w)))))"
              using below by (simp add: setitem_within_cap)
            ultimately show ?thesis
              using cap within_cap_update [OF cap] by blast
          qed
        next
          case VNone
          then show ?thesis using cs Inr Some False
            by (intro same) (simp add: send_reminder_email_def)
        next
          case (VStr x)
          then show ?thesis using cs Inr Some False
            by (intro same) (simp add: send_reminder_email_def)
        next
          case (VTime x)
          then show ?thesis using cs Inr Some False
            by (intro same) (simp add: send_reminder_email_def)
        qed
      qed
    qed
  qed
qed

text \<open>
  The branch taken when the stored count has reached the cap: the contact is marked
  not_interested and stamped, the collection is saved, and no mail is sent and no job
  scheduled.
\<close>

lemma cap_branch_marks_not_interested:
  assumes cs: "load_json (files w) CONTACTS_FILE = Inr cs"
    and found: "find_contact cs cid = Inr (Some i)"
    and pend: "is_pending (cs ! i)"
    and count: "get_or (cs ! i) ''reminder_count'' (VInt 0) = VInt n"
    and cap: "n \<ge> MAX_REMINDERS"
    and named: "has_key (cs ! i) ''name''"
  shows "\<exists>w'. send_reminder_email e cid iv w = (Inr (), w')
           \<and> files w' CONTACTS_FILE
               = Some (Json (cs[i := setitem (setitem (cs ! i) ''status'' (VStr ''not_interested''))
                                       ''updated_at'' (VTime (clock e (tick w)))]))
           \<and> writes w' = writes w @ [CONTACTS_FILE]
           \<and> scheduler w' = scheduler w
           \<and> outbox w' = outbox w"
proof -
  have ne: "cs ! i \<noteq> []" using named by (auto simp: has_key_def)
  obtain v where "getitem (setitem (setitem (cs ! i) ''status'' (VStr ''not_interested''))
                     ''updated_at'' (VTime (clock e (tick w)))) ''name'' = Inr v"
    using named by (auto simp: getitem_def has_key_def map_of_setitem)
  then show ?thesis
    using cs found pend count cap ne
    by (simp add: send_reminder_email_def Let_def now_def print_def write_file_def
          save_json_def)
qed

text \<open>
  C1. The reminder count never exceeds the cap, and a contact whose count reaches the cap
  becomes not_interested. The code does not do the second: when the job for the third
  reminder fires for the pending contact \<open>cat\<close> (count 2), the reminder is sent, the
  count becomes 3, which is the cap, the contact is saved with status pending, and no
  job is scheduled, so nothing is left to run the branch that would mark it
  not_interested.
\<close>

theorem third_reminder_leaves_contact_pending:
  "fst (send_reminder_email all_ok (VInt 3) None (started (Some (Json [cat])))) = Inr ()
   \<and> files (snd (send_reminder_email all_ok (VInt 3) None (started (Some (Json [cat])))))
       CONTACTS_FILE
       = Some (Json [[(''id'', VInt 3), (''name'', VStr ''Cat''),
                      (''email'', VStr ''cat@example.com''), (''status'', VStr ''pending''),
                      (''reminder_count'', VInt MAX_REMINDERS),
                      (''last_reminder_sent'', VTime 1), (''updated_at'', VTime 1)]])
   \<and> scheduler (snd (send_reminder_email all_ok (VInt 3) None (started (Some (Json [cat])))))
       = Some []"
  by (simp add: send_reminder_email_def reminder_try_def reminder_failed_def
        load_json_def save_json_def started_def cat_def all_ok_def getitem_def get_or_def
        is_pending_def MAX_REMINDERS_def DEFAULT_REMINDER_INTERVAL_MINUTES_def
        now_def write_file_def print_def Let_def TRACKING_FILE_def CONTACTS_FILE_def)

end
